theory Spec2Isabelle
  imports Main "HOL-Library.Sublist" "HOL-Library.Product_Lexorder"
begin

section \<open>The command-line scanner of src/ns2/nordstream.py\<close>

subsection \<open>Exceptions, the log, the operating system and the YARA library\<close>

text \<open>
  Every exception the scanner raises, catches or lets through is a value. The string is the
  text of \<^verbatim>\<open>str(e)\<close>; for \<open>UnboundLocalError\<close> it is the name of the variable.
  \<^verbatim>\<open>yara.SyntaxError\<close> is a subclass of \<^verbatim>\<open>yara.Error\<close>, and
  \<^verbatim>\<open>UnboundLocalError\<close> is a subclass of \<^verbatim>\<open>NameError\<close>.
\<close>

datatype py_exception =
    FileNotFoundError string
  | YaraSyntaxError string
  | YaraError string
  | AttributeError string
  | NameError string
  | UnboundLocalError string
  | OtherException string

fun exc_str :: "py_exception \<Rightarrow> string" where
  "exc_str (FileNotFoundError m) = m"
| "exc_str (YaraSyntaxError m) = m"
| "exc_str (YaraError m) = m"
| "exc_str (AttributeError m) = m"
| "exc_str (NameError m) = m"
| "exc_str (UnboundLocalError m) = m"
| "exc_str (OtherException m) = m"

fun is_FileNotFoundError :: "py_exception \<Rightarrow> bool" where
  "is_FileNotFoundError (FileNotFoundError m) = True"
| "is_FileNotFoundError e = False"

fun is_YaraSyntaxError :: "py_exception \<Rightarrow> bool" where
  "is_YaraSyntaxError (YaraSyntaxError m) = True"
| "is_YaraSyntaxError e = False"

fun is_YaraError :: "py_exception \<Rightarrow> bool" where
  "is_YaraError (YaraError m) = True"
| "is_YaraError (YaraSyntaxError m) = True"
| "is_YaraError e = False"

fun is_NameError :: "py_exception \<Rightarrow> bool" where
  "is_NameError (NameError m) = True"
| "is_NameError (UnboundLocalError m) = True"
| "is_NameError e = False"

text \<open>
  The logger of src/ns2/logger.py writes to the console at level INFO; the model keeps the
  records it emits, in order. \<^verbatim>\<open>success\<close> and \<^verbatim>\<open>info(..., success=True)\<close>
  both log at INFO with the prefix \<^verbatim>\<open>[SUCCESS] \<close>.
\<close>

datatype log_level = INFO | WARNING | ERROR

type_synonym log = "(log_level \<times> string) list"

definition log_info :: "string \<Rightarrow> log \<Rightarrow> log" where
  "log_info message l = l @ [(INFO, message)]"

definition log_info_success :: "string \<Rightarrow> log \<Rightarrow> log" where
  "log_info_success message l = l @ [(INFO, ''[SUCCESS] '' @ message)]"

definition log_success :: "string \<Rightarrow> log \<Rightarrow> log" where
  "log_success message l = l @ [(INFO, ''[SUCCESS] '' @ message)]"

definition log_warning :: "string \<Rightarrow> log \<Rightarrow> log" where
  "log_warning message l = l @ [(WARNING, message)]"

definition log_error :: "string \<Rightarrow> log \<Rightarrow> log" where
  "log_error message l = l @ [(ERROR, message)]"

text \<open>
  The modules \<^verbatim>\<open>os\<close> and \<^verbatim>\<open>yara\<close> are not code of the repository. What the
  scanner asks of them is a parameter: the file system's answers, the path functions, the
  compiler and the matcher of the library (\<open>'r\<close> the compiled rules, \<open>'m\<close> one match),
  and the text \<^verbatim>\<open>str(matches)\<close>.
\<close>

type_synonym path = string

record ('r, 'm) world =
  os_isdir :: "path \<Rightarrow> bool"
  os_isfile :: "path \<Rightarrow> bool"
  os_getcwd :: path
  os_isabs :: "path \<Rightarrow> bool"
  os_join :: "path \<Rightarrow> path \<Rightarrow> path"
  os_abspath :: "path \<Rightarrow> path"
  yara_compile :: "path \<Rightarrow> py_exception + 'r"
  yara_match :: "'r \<Rightarrow> path \<Rightarrow> py_exception + 'm list"
  str_of_matches :: "'m list \<Rightarrow> string"

definition os_pardir :: path where
  "os_pardir = ''..''"

subsection \<open>Config\<close>

definition Config_rule_base_default :: path where
  "Config_rule_base_default = ''yara_rules''"

definition get_rule_base :: "('r, 'm) world \<Rightarrow> path" where
  "get_rule_base w =
     (if os_isdir w Config_rule_base_default then Config_rule_base_default
      else
        let parent_dir = os_join w (os_getcwd w) os_pardir;
            rule_base = os_join w parent_dir Config_rule_base_default
        in if os_isdir w rule_base then rule_base
           else
             let grandparent_dir = os_join w parent_dir os_pardir;
                 rule_base = os_join w grandparent_dir Config_rule_base_default
             in if os_isdir w rule_base then rule_base else [])"

record config =
  rule_base :: path

definition Config_init :: "('r, 'm) world \<Rightarrow> config" where
  "Config_init w = \<lparr>rule_base = get_rule_base w\<rparr>"

subsection \<open>YaraScanner\<close>

record 'r yara_scanner =
  rule_path :: path
  file_to_scan :: path
  compiled_rule :: "'r option"

definition YaraScanner_init :: "path \<Rightarrow> path \<Rightarrow> 'r yara_scanner" where
  "YaraScanner_init rp f = \<lparr>rule_path = rp, file_to_scan = f, compiled_rule = None\<rparr>"

text \<open>
  A method takes the scanner and the log and returns what it raises (\<open>Inl\<close>) or returns
  (\<open>Inr\<close>), with the scanner and the log as it leaves them.
\<close>

type_synonym 'r state = "'r yara_scanner \<times> log"

definition validate_paths ::
  "('r, 'm) world \<Rightarrow> 'r state \<Rightarrow> (py_exception + unit) \<times> 'r state" where
  "validate_paths w \<sigma> =
     (case \<sigma> of (self, l) \<Rightarrow>
        if \<not> os_isfile w (rule_path self) then
          (Inl (FileNotFoundError (''Rule file not found: '' @ rule_path self)), (self, l))
        else if \<not> os_isfile w (file_to_scan self) then
          (Inl (FileNotFoundError (''File to scan not found: '' @ file_to_scan self)),
           (self, log_error (''File to scan not found: '' @ file_to_scan self) l))
        else (Inr (), (self, l)))"

text \<open>
  \<^verbatim>\<open>s.split("\\")[-1]\<close> is what follows the last backslash of \<open>s\<close>, and
  \<^verbatim>\<open>.replace(".yar", "")\<close> deletes the occurrences of \<^verbatim>\<open>.yar\<close> from the left.
\<close>

definition split_backslash_last :: "string \<Rightarrow> string" where
  "split_backslash_last s = rev (takeWhile (\<lambda>c. c \<noteq> CHR 0x5C) (rev s))"

function replace_yar :: "string \<Rightarrow> string" where
  "replace_yar s =
     (if prefix ''.yar'' s then replace_yar (drop 4 s)
      else case s of [] \<Rightarrow> [] | c # cs \<Rightarrow> c # replace_yar cs)"
  by pat_completeness auto
termination
  by (relation "measure length") (auto elim: prefixE)

declare replace_yar.simps [simp del]

definition compile_rule ::
  "('r, 'm) world \<Rightarrow> 'r state \<Rightarrow> (py_exception + unit) \<times> 'r state" where
  "compile_rule w \<sigma> =
     (case \<sigma> of (self, l) \<Rightarrow>
        let rule_path_d = replace_yar (split_backslash_last (rule_path self));
            l1 = log_info (''Compiling YARA rule from: '' @ rule_path_d) l
        in case yara_compile w (rule_path self) of
             Inr r \<Rightarrow> (Inr (), (self\<lparr>compiled_rule := Some r\<rparr>, l1))
           | Inl e \<Rightarrow>
               if is_YaraSyntaxError e then
                 (Inl e, (self, log_error (''Syntax Error in YARA rule: '' @ exc_str e) l1))
               else
                 (Inl e, (self, log_error (''Failed to compile YARA rule: '' @ exc_str e) l1)))"

definition scan_file ::
  "('r, 'm) world \<Rightarrow> 'r state \<Rightarrow> (py_exception + 'm list) \<times> 'r state" where
  "scan_file w \<sigma> =
     (case \<sigma> of (self, l) \<Rightarrow>
        let abs_file_path = os_abspath w (file_to_scan self);
            l1 = log_info (''Scanning file: '' @ abs_file_path) l;
            matches =
              (case compiled_rule self of
                 None \<Rightarrow>
                   Inl (AttributeError
                          (CHR 0x27 # ''NoneType'' @ CHR 0x27 # '' object has no attribute '' @
                           CHR 0x27 # ''match'' @ [CHR 0x27]))
               | Some r \<Rightarrow> yara_match w r (file_to_scan self))
        in case matches of
             Inr ms \<Rightarrow> (Inr ms, (self, l1))
           | Inl e \<Rightarrow>
               if is_YaraError e then
                 (Inl e, (self, log_error (''YARA Error while scanning: '' @ exc_str e) l1))
               else
                 (Inl e, (self, log_error (''Unexpected error while scanning: '' @ exc_str e) l1)))"

subsection \<open>YaraScannerCLI\<close>

record cli_args =
  arg_rule :: string
  arg_file :: string

definition get_rule_path :: "('r, 'm) world \<Rightarrow> string \<Rightarrow> path" where
  "get_rule_path w rule_file0 =
     (let rule_file =
            (if \<not> suffix ''.yar'' rule_file0 \<and> \<not> suffix ''.yara'' rule_file0
             then rule_file0 @ ''.yar'' else rule_file0)
      in if os_isabs w rule_file then rule_file
         else
           let config = Config_init w;
               rule_base = config.rule_base config;
               path = os_join w rule_base rule_file
           in path)"

text \<open>
  Reading a local variable of a function that has no value yet raises
  \<^verbatim>\<open>UnboundLocalError\<close>. The only such variable of \<^verbatim>\<open>run\<close> that matters is
  \<^verbatim>\<open>e\<close>, which \<^verbatim>\<open>except FileNotFoundError as e\<close> binds and the handler of
  \<^verbatim>\<open>yara.SyntaxError\<close> does not.
\<close>

definition read_local :: "(string \<rightharpoonup> py_exception) \<Rightarrow> string \<Rightarrow> py_exception + py_exception" where
  "read_local locals x = (case locals x of None \<Rightarrow> Inl (UnboundLocalError x) | Some v \<Rightarrow> Inr v)"

text \<open>The body of the \<^verbatim>\<open>try\<close> statement of \<^verbatim>\<open>run\<close>.\<close>

definition run_try ::
  "('r, 'm) world \<Rightarrow> path \<Rightarrow> path \<Rightarrow> log \<Rightarrow> (py_exception + unit) \<times> 'r state" where
  "run_try w rp f l =
     (let scanner = YaraScanner_init rp f in
      case validate_paths w (scanner, l) of
        (Inl e, \<sigma>1) \<Rightarrow> (Inl e, \<sigma>1)
      | (Inr u, \<sigma>1) \<Rightarrow>
          (case compile_rule w \<sigma>1 of
             (Inl e, \<sigma>2) \<Rightarrow> (Inl e, \<sigma>2)
           | (Inr u, \<sigma>2) \<Rightarrow>
               (case scan_file w \<sigma>2 of
                  (Inl e, \<sigma>3) \<Rightarrow> (Inl e, \<sigma>3)
                | (Inr matches, (self, l3)) \<Rightarrow>
                    if matches \<noteq> [] then
                      (Inr (), (self, log_info_success (str_of_matches w matches)
                                        (log_success ''YARA rule matched!'' l3)))
                    else
                      (Inr (), (self, log_warning
                                        ''[bold yellow]No matches found.[/bold yellow]'' l3)))))"

definition run :: "('r, 'm) world \<Rightarrow> cli_args \<Rightarrow> log \<Rightarrow> (py_exception + unit) \<times> log" where
  "run w args l =
     (let rp = get_rule_path w (arg_rule args);
          f = arg_file args;
          locals = Map.empty
      in case (run_try w rp f l :: (py_exception + unit) \<times> 'r state) of
           (Inr u, (self, l1)) \<Rightarrow> (Inr (), l1)
         | (Inl exc, (self, l1)) \<Rightarrow>
             if is_FileNotFoundError exc then
               (case read_local (locals(''e'' \<mapsto> exc)) ''e'' of
                  Inl err \<Rightarrow> (Inl err, l1)
                | Inr e \<Rightarrow> (Inr (), log_error (exc_str e) l1))
             else if is_YaraSyntaxError exc then
               (case read_local locals ''e'' of
                  Inl err \<Rightarrow> (Inl err, l1)
                | Inr e \<Rightarrow> (Inr (), log_error (''An unexpected error occurred: '' @ exc_str e) l1))
             else (Inl exc, l1))"

subsection \<open>A file system and a library to run the scanner on\<close>

definition example_join :: "path \<Rightarrow> path \<Rightarrow> path" where
  "example_join a b =
     (if prefix ''/'' b then b
      else if a = [] \<or> suffix ''/'' a then a @ b
      else a @ ''/'' @ b)"

definition example_world :: "(string, string) world" where
  "example_world =
     \<lparr>os_isdir = (\<lambda>p. p = ''yara_rules''),
      os_isfile = (\<lambda>p. p = ''yara_rules/test.yar'' \<or> p = ''sample.bin''),
      os_getcwd = ''/home/user'',
      os_isabs = (\<lambda>p. prefix ''/'' p),
      os_join = example_join,
      os_abspath = (\<lambda>p. if prefix ''/'' p then p else example_join ''/home/user'' p),
      yara_compile = (\<lambda>p. Inl (YaraSyntaxError ''line 1: syntax error'')),
      yara_match = (\<lambda>r p. Inr []),
      str_of_matches = (\<lambda>ms. concat ms)\<rparr>"

section \<open>The matching engine behind the scanner\<close>

text \<open>
  Modelled from the spec: the rule compiler and the scan engine. The repository holds only
  their caller (\<^verbatim>\<open>yara.compile\<close> and \<^verbatim>\<open>Rules.match\<close> are calls into a library it
  does not contain), so the definitions of this section follow the words of the specification,
  sections 3, 4, 6 and 7: the data model, the pattern compiler, the condition evaluator and
  the scan algorithm with its ordering and its per-rule errors. Left out, because the
  specification gives no semantics to build them from: regular-expression patterns, string
  literals inside conditions, internal matcher faults, and the options, time-out and
  cancellation of a scan. Tags are a list and metadata an association list. A pattern source
  arrives as its tokens and a condition source as its syntax tree: the textual grammar is
  not specified.
\<close>

subsection \<open>Errors\<close>

datatype engine_error =
    PatternSyntaxError
  | ConditionSyntaxError
  | UnknownPatternError string
  | UndefinedOffsetError string
  | RuleEvaluationError
  | TimeoutError
  | CancellationError


subsection \<open>Patterns and their compilation\<close>

type_synonym byte = char

datatype hex_source_token = HexText string | GapText nat nat

datatype hex_token = Fixed byte | Wildcard | Gap nat nat

datatype pattern_source = LiteralSource "byte list" | HexSource "hex_source_token list"

datatype matcher = LiteralMatcher "byte list" | HexMatcher "hex_token list"

datatype modifiers =
  Modifiers (case_insensitive: bool) (full_word: bool) (match_once: bool)

datatype pattern_def =
  PatternDef (pd_name: string) (pd_source: pattern_source) (pd_modifiers: modifiers)

datatype compiled_pattern =
  CompiledPattern (cp_name: string) (cp_matcher: matcher) (cp_modifiers: modifiers)

definition is_hex_digit :: "char \<Rightarrow> bool" where
  "is_hex_digit c \<longleftrightarrow> c \<in> set ''0123456789abcdefABCDEF''"

definition hex_digit_value :: "char \<Rightarrow> nat" where
  "hex_digit_value c =
     (let n = (of_char c :: nat)
      in if 48 \<le> n \<and> n \<le> 57 then n - 48
         else if 97 \<le> n \<and> n \<le> 102 then n - 87
         else n - 55)"

text \<open>
  A hex token is two hex digits (a fixed byte) or \<^verbatim>\<open>??\<close> (any one byte); a gap
  \<^verbatim>\<open>[lo-hi]\<close> stands for \<open>lo\<close> to \<open>hi\<close> arbitrary bytes.
\<close>

fun compile_hex_token :: "hex_source_token \<Rightarrow> engine_error + hex_token" where
  "compile_hex_token (HexText s) =
     (if s = ''??'' then Inr Wildcard
      else case s of
             [h, l] \<Rightarrow>
               if is_hex_digit h \<and> is_hex_digit l
               then Inr (Fixed (char_of (16 * hex_digit_value h + hex_digit_value l)))
               else Inl PatternSyntaxError
           | _ \<Rightarrow> Inl PatternSyntaxError)"
| "compile_hex_token (GapText lo hi) =
     (if lo > hi then Inl PatternSyntaxError else Inr (Gap lo hi))"

fun compile_hex :: "hex_source_token list \<Rightarrow> engine_error + hex_token list" where
  "compile_hex [] = Inr []"
| "compile_hex (t # ts) =
     (case compile_hex_token t of
        Inl e \<Rightarrow> Inl e
      | Inr c \<Rightarrow> (case compile_hex ts of Inl e \<Rightarrow> Inl e | Inr cs \<Rightarrow> Inr (c # cs)))"

fun compile_pattern_source :: "pattern_source \<Rightarrow> engine_error + matcher" where
  "compile_pattern_source (LiteralSource bs) = Inr (LiteralMatcher bs)"
| "compile_pattern_source (HexSource ts) =
     (case compile_hex ts of Inl e \<Rightarrow> Inl e | Inr cs \<Rightarrow> Inr (HexMatcher cs))"

text \<open>
  Modelled from the spec: the pattern compiler of section 4.1,
  \<^verbatim>\<open>compile(patternSource) -> CompiledPattern | fails with PatternSyntaxError\<close>, without
  the regular-expression kind.
\<close>

definition compile_pattern :: "pattern_def \<Rightarrow> engine_error + compiled_pattern" where
  "compile_pattern pd =
     (case compile_pattern_source (pd_source pd) of
        Inl e \<Rightarrow> Inl e
      | Inr m \<Rightarrow> Inr (CompiledPattern (pd_name pd) m (pd_modifiers pd)))"

fun compile_patterns :: "pattern_def list \<Rightarrow> engine_error + compiled_pattern list" where
  "compile_patterns [] = Inr []"
| "compile_patterns (pd # pds) =
     (case compile_pattern pd of
        Inl e \<Rightarrow> Inl e
      | Inr p \<Rightarrow> (case compile_patterns pds of Inl e \<Rightarrow> Inl e | Inr ps \<Rightarrow> Inr (p # ps)))"

text \<open>What the specification calls a malformed hex token and an inverted range bound.\<close>

fun malformed_hex_token :: "hex_source_token \<Rightarrow> bool" where
  "malformed_hex_token (HexText s) =
     (s \<noteq> ''??'' \<and> \<not> (length s = 2 \<and> (\<forall>c \<in> set s. is_hex_digit c)))"
| "malformed_hex_token (GapText lo hi) = False"

fun inverted_gap :: "hex_source_token \<Rightarrow> bool" where
  "inverted_gap (GapText lo hi) = (lo > hi)"
| "inverted_gap (HexText s) = False"

subsection \<open>Conditions and their compilation\<close>

datatype cmp_op = Eq | Ne | Lt | Le | Gt | Ge

datatype int_term =
    IntLit int
  | Count string
  | Offset string
  | Add int_term int_term
  | Sub int_term int_term
  | Mul int_term int_term

datatype condition =
    BoolLit bool
  | Matched string
  | Not condition
  | And condition condition
  | Or condition condition
  | Cmp cmp_op int_term int_term

text \<open>The pattern names a condition refers to, left to right.\<close>

fun term_refs :: "int_term \<Rightarrow> string list" where
  "term_refs (IntLit n) = []"
| "term_refs (Count x) = [x]"
| "term_refs (Offset x) = [x]"
| "term_refs (Add a b) = term_refs a @ term_refs b"
| "term_refs (Sub a b) = term_refs a @ term_refs b"
| "term_refs (Mul a b) = term_refs a @ term_refs b"

fun condition_refs :: "condition \<Rightarrow> string list" where
  "condition_refs (BoolLit b) = []"
| "condition_refs (Matched x) = [x]"
| "condition_refs (Not c) = condition_refs c"
| "condition_refs (And c d) = condition_refs c @ condition_refs d"
| "condition_refs (Or c d) = condition_refs c @ condition_refs d"
| "condition_refs (Cmp opr a b) = term_refs a @ term_refs b"

text \<open>
  Modelled from the spec: the condition compiler of section 4.2,
  \<^verbatim>\<open>compile(conditionSource, knownPatternNames)\<close>. It resolves every pattern reference
  against the known names and fails with \<open>UnknownPatternError\<close> on the first undefined one.
\<close>

definition compile_condition :: "condition \<Rightarrow> string list \<Rightarrow> engine_error + condition" where
  "compile_condition conditionSource knownPatternNames =
     (case filter (\<lambda>x. x \<notin> set knownPatternNames) (condition_refs conditionSource) of
        [] \<Rightarrow> Inr conditionSource
      | x # xs \<Rightarrow> Inl (UnknownPatternError x))"

subsection \<open>Rules and rule sets\<close>

datatype rule_source =
  RuleSource (rs_identifier: string) (rs_patterns: "pattern_def list") (rs_condition: condition)
    (rs_tags: "string list") (rs_metadata: "(string \<times> string) list")

datatype rule =
  Rule (rule_identifier: string) (rule_patterns: "compiled_pattern list")
    (rule_condition: condition) (rule_tags: "string list") (rule_metadata: "(string \<times> string) list")

definition compile_rule_source :: "rule_source \<Rightarrow> engine_error + rule" where
  "compile_rule_source src =
     (case compile_patterns (rs_patterns src) of
        Inl e \<Rightarrow> Inl e
      | Inr ps \<Rightarrow>
          (case compile_condition (rs_condition src) (map pd_name (rs_patterns src)) of
             Inl e \<Rightarrow> Inl e
           | Inr c \<Rightarrow> Inr (Rule (rs_identifier src) ps c (rs_tags src) (rs_metadata src))))"


text \<open>
  Modelled from the spec: \<^verbatim>\<open>compileRules\<close> of section 6, in the default policy of
  section 7, where a compile-time error aborts the whole call.
\<close>

fun compileRules :: "rule_source list \<Rightarrow> engine_error + rule list" where
  "compileRules [] = Inr []"
| "compileRules (src # srcs) =
     (case compile_rule_source src of
        Inl e \<Rightarrow> Inl e
      | Inr r \<Rightarrow> (case compileRules srcs of Inl e \<Rightarrow> Inl e | Inr rs \<Rightarrow> Inr (r # rs)))"

subsection \<open>Running a pattern against a buffer\<close>

definition ascii_lower :: "byte \<Rightarrow> byte" where
  "ascii_lower c =
     (let n = (of_char c :: nat) in if 65 \<le> n \<and> n \<le> 90 then char_of (n + 32) else c)"

definition is_alnum :: "byte \<Rightarrow> bool" where
  "is_alnum c =
     (let n = (of_char c :: nat)
      in (48 \<le> n \<and> n \<le> 57) \<or> (65 \<le> n \<and> n \<le> 90) \<or> (97 \<le> n \<and> n \<le> 122))"

text \<open>The length of the match of a token sequence at the head of \<open>bs\<close>, the shortest one.\<close>

fun match_hex :: "hex_token list \<Rightarrow> byte list \<Rightarrow> nat option" where
  "match_hex [] bs = Some 0"
| "match_hex (Fixed b # ts) bs =
     (case bs of
        [] \<Rightarrow> None
      | c # cs \<Rightarrow> if c = b then map_option Suc (match_hex ts cs) else None)"
| "match_hex (Wildcard # ts) bs =
     (case bs of [] \<Rightarrow> None | c # cs \<Rightarrow> map_option Suc (match_hex ts cs))"
| "match_hex (Gap lo hi # ts) bs =
     (case List.map_filter
             (\<lambda>k. if k \<le> length bs then map_option (\<lambda>n. k + n) (match_hex ts (drop k bs))
                  else None)
             [lo..<Suc hi] of
        [] \<Rightarrow> None
      | n # ns \<Rightarrow> Some n)"

definition match_literal :: "bool \<Rightarrow> byte list \<Rightarrow> byte list \<Rightarrow> nat option" where
  "match_literal nocase lit bs =
     (let norm = (if nocase then map ascii_lower else id)
      in if norm (take (length lit) bs) = norm lit then Some (length lit) else None)"

definition word_boundaries :: "byte list \<Rightarrow> nat \<Rightarrow> nat \<Rightarrow> bool" where
  "word_boundaries buf i n \<longleftrightarrow>
     (i = 0 \<or> \<not> is_alnum (buf ! (i - 1))) \<and>
     (length buf \<le> i + n \<or> \<not> is_alnum (buf ! (i + n)))"

definition match_at :: "compiled_pattern \<Rightarrow> byte list \<Rightarrow> nat \<Rightarrow> nat option" where
  "match_at p buf i =
     (let found =
            (case cp_matcher p of
               LiteralMatcher lit \<Rightarrow>
                 match_literal (case_insensitive (cp_modifiers p)) lit (drop i buf)
             | HexMatcher ts \<Rightarrow> match_hex ts (drop i buf))
      in case found of
           None \<Rightarrow> None
         | Some n \<Rightarrow>
             if full_word (cp_modifiers p) \<and> \<not> word_boundaries buf i n then None
             else Some n)"

text \<open>
  Every occurrence of the pattern, as (offset, length) by ascending offset, the offset inside
  the buffer; only the first one when the pattern is to match at most once.
\<close>

definition run_pattern :: "compiled_pattern \<Rightarrow> byte list \<Rightarrow> (nat \<times> nat) list" where
  "run_pattern p buf =
     (let found = List.map_filter (\<lambda>i. map_option (Pair i) (match_at p buf i)) [0..<length buf]
      in if match_once (cp_modifiers p) then take 1 found else found)"

subsection \<open>Scanning\<close>

datatype match_occurrence =
  MatchOccurrence (mo_pattern: string) (mo_offset: nat) (mo_length: nat)

text \<open>
  The occurrences of all patterns of a rule, each under its key: the offset, then the
  position of the pattern in the rule's declaration.
\<close>

definition keyed_occurrences ::
  "compiled_pattern list \<Rightarrow> byte list \<Rightarrow> ((nat \<times> nat) \<times> match_occurrence) list" where
  "keyed_occurrences ps buf =
     sort_key fst
       (concat (map (\<lambda>(idx, p). map (\<lambda>(off, n). ((off, idx), MatchOccurrence (cp_name p) off n))
                                  (run_pattern p buf))
                    (enumerate 0 ps)))"

definition rule_occurrences :: "rule \<Rightarrow> byte list \<Rightarrow> match_occurrence list" where
  "rule_occurrences r buf = map snd (keyed_occurrences (rule_patterns r) buf)"

text \<open>The evaluation context: for a pattern name, the offsets of its occurrences, in order.\<close>

type_synonym eval_context = "string \<Rightarrow> nat list"

definition context_of :: "match_occurrence list \<Rightarrow> eval_context" where
  "context_of occs = (\<lambda>x. map mo_offset (filter (\<lambda>occ. mo_pattern occ = x) occs))"

text \<open>
  Modelled from the spec: evaluation of a compiled condition, section 4.3 step 3. A name with
  no match is false and counts 0; \<^verbatim>\<open>@x\<close> is the first offset of \<open>x\<close> and an
  \<open>UndefinedOffsetError\<close> when there is none; \<^verbatim>\<open>and\<close> and \<^verbatim>\<open>or\<close> short-circuit.
\<close>

fun eval_term :: "eval_context \<Rightarrow> int_term \<Rightarrow> engine_error + int" where
  "eval_term ctx (IntLit n) = Inr n"
| "eval_term ctx (Count x) = Inr (int (length (ctx x)))"
| "eval_term ctx (Offset x) =
     (case ctx x of [] \<Rightarrow> Inl (UndefinedOffsetError x) | off # offs \<Rightarrow> Inr (int off))"
| "eval_term ctx (Add a b) =
     (case eval_term ctx a of
        Inl e \<Rightarrow> Inl e
      | Inr m \<Rightarrow> (case eval_term ctx b of Inl e \<Rightarrow> Inl e | Inr n \<Rightarrow> Inr (m + n)))"
| "eval_term ctx (Sub a b) =
     (case eval_term ctx a of
        Inl e \<Rightarrow> Inl e
      | Inr m \<Rightarrow> (case eval_term ctx b of Inl e \<Rightarrow> Inl e | Inr n \<Rightarrow> Inr (m - n)))"
| "eval_term ctx (Mul a b) =
     (case eval_term ctx a of
        Inl e \<Rightarrow> Inl e
      | Inr m \<Rightarrow> (case eval_term ctx b of Inl e \<Rightarrow> Inl e | Inr n \<Rightarrow> Inr (m * n)))"

fun compare :: "cmp_op \<Rightarrow> int \<Rightarrow> int \<Rightarrow> bool" where
  "compare Eq m n = (m = n)"
| "compare Ne m n = (m \<noteq> n)"
| "compare Lt m n = (m < n)"
| "compare Le m n = (m \<le> n)"
| "compare Gt m n = (m > n)"
| "compare Ge m n = (m \<ge> n)"

fun eval_condition :: "eval_context \<Rightarrow> condition \<Rightarrow> engine_error + bool" where
  "eval_condition ctx (BoolLit b) = Inr b"
| "eval_condition ctx (Matched x) = Inr (ctx x \<noteq> [])"
| "eval_condition ctx (Not c) =
     (case eval_condition ctx c of Inl e \<Rightarrow> Inl e | Inr b \<Rightarrow> Inr (\<not> b))"
| "eval_condition ctx (And c d) =
     (case eval_condition ctx c of
        Inl e \<Rightarrow> Inl e
      | Inr b \<Rightarrow> if b then eval_condition ctx d else Inr False)"
| "eval_condition ctx (Or c d) =
     (case eval_condition ctx c of
        Inl e \<Rightarrow> Inl e
      | Inr b \<Rightarrow> if b then Inr True else eval_condition ctx d)"
| "eval_condition ctx (Cmp opr a b) =
     (case eval_term ctx a of
        Inl e \<Rightarrow> Inl e
      | Inr m \<Rightarrow> (case eval_term ctx b of Inl e \<Rightarrow> Inl e | Inr n \<Rightarrow> Inr (compare opr m n)))"

text \<open>
  The names \<open>x\<close> whose term \<^verbatim>\<open>@x\<close> the evaluation of a condition reaches, in the order
  it reaches them: what short-circuiting skips is not evaluated, and nothing is after an error.
\<close>

fun term_offsets_evaluated :: "eval_context \<Rightarrow> int_term \<Rightarrow> string list" where
  "term_offsets_evaluated ctx (IntLit n) = []"
| "term_offsets_evaluated ctx (Count x) = []"
| "term_offsets_evaluated ctx (Offset x) = [x]"
| "term_offsets_evaluated ctx (Add a b) =
     term_offsets_evaluated ctx a @
     (case eval_term ctx a of Inl e \<Rightarrow> [] | Inr m \<Rightarrow> term_offsets_evaluated ctx b)"
| "term_offsets_evaluated ctx (Sub a b) =
     term_offsets_evaluated ctx a @
     (case eval_term ctx a of Inl e \<Rightarrow> [] | Inr m \<Rightarrow> term_offsets_evaluated ctx b)"
| "term_offsets_evaluated ctx (Mul a b) =
     term_offsets_evaluated ctx a @
     (case eval_term ctx a of Inl e \<Rightarrow> [] | Inr m \<Rightarrow> term_offsets_evaluated ctx b)"

fun offsets_evaluated :: "eval_context \<Rightarrow> condition \<Rightarrow> string list" where
  "offsets_evaluated ctx (BoolLit b) = []"
| "offsets_evaluated ctx (Matched x) = []"
| "offsets_evaluated ctx (Not c) = offsets_evaluated ctx c"
| "offsets_evaluated ctx (And c d) =
     offsets_evaluated ctx c @
     (case eval_condition ctx c of
        Inl e \<Rightarrow> []
      | Inr b \<Rightarrow> if b then offsets_evaluated ctx d else [])"
| "offsets_evaluated ctx (Or c d) =
     offsets_evaluated ctx c @
     (case eval_condition ctx c of
        Inl e \<Rightarrow> []
      | Inr b \<Rightarrow> if b then [] else offsets_evaluated ctx d)"
| "offsets_evaluated ctx (Cmp opr a b) =
     term_offsets_evaluated ctx a @
     (case eval_term ctx a of Inl e \<Rightarrow> [] | Inr m \<Rightarrow> term_offsets_evaluated ctx b)"

datatype rule_outcome =
    RuleMatched "match_occurrence list"
  | RuleNotMatched
  | RuleFailed engine_error

text \<open>
  Modelled from the spec: steps 1 to 4 of the scan algorithm for one rule. The rule matches
  iff its condition is true; an error of the evaluation is the outcome of this rule alone.
\<close>

definition evaluate_rule :: "rule \<Rightarrow> byte list \<Rightarrow> rule_outcome" where
  "evaluate_rule r buf =
     (let occs = rule_occurrences r buf
      in case eval_condition (context_of occs) (rule_condition r) of
           Inl e \<Rightarrow> RuleFailed e
         | Inr b \<Rightarrow> if b then RuleMatched occs else RuleNotMatched)"

datatype matched_rule =
  MatchedRule (mr_rule: rule) (mr_occurrences: "match_occurrence list")

datatype scan_result =
  ScanResult (sr_matched: "matched_rule list") (sr_errors: "(string \<times> engine_error) list")

text \<open>
  Modelled from the spec: \<^verbatim>\<open>scan(ruleSet, buffer) -> ScanResult\<close> of section 4.3.
  The result is put together from the outcome of every rule, taken in the order of the rule
  set: the matched rules with their occurrences, and beside them the errors of the rules that
  could not be evaluated.
\<close>

fun assemble :: "(rule \<times> rule_outcome) list \<Rightarrow> scan_result" where
  "assemble [] = ScanResult [] []"
| "assemble ((r, outcome) # rest) =
     (case outcome of
        RuleMatched occs \<Rightarrow>
          ScanResult (MatchedRule r occs # sr_matched (assemble rest)) (sr_errors (assemble rest))
      | RuleNotMatched \<Rightarrow> assemble rest
      | RuleFailed e \<Rightarrow>
          ScanResult (sr_matched (assemble rest)) ((rule_identifier r, e) # sr_errors (assemble rest)))"

definition scan :: "rule list \<Rightarrow> byte list \<Rightarrow> scan_result" where
  "scan ruleSet buf = assemble (map (\<lambda>r. (r, evaluate_rule r buf)) ruleSet)"


subsection \<open>Rule sets and buffers to run the engine on\<close>

definition no_modifiers :: modifiers where
  "no_modifiers = Modifiers False False False"

definition always_rule :: rule where
  "always_rule = Rule ''always'' [] (BoolLit True) [] []"

definition first_byte_rule :: rule where
  "first_byte_rule =
     Rule ''first_byte'' [CompiledPattern ''a'' (LiteralMatcher ''ab'') no_modifiers]
       (Cmp Eq (Offset ''a'') (IntLit 0)) [] []"


definition cd_rule :: rule where
  "cd_rule =
     Rule ''cd'' [CompiledPattern ''B'' (LiteralMatcher ''cd'') no_modifiers]
       (Cmp Ge (Count ''B'') (IntLit 1)) [] []"

definition inverted_gap_source :: rule_source where
  "inverted_gap_source =
     RuleSource ''bad_gap''
       [PatternDef ''h'' (HexSource [HexText ''6A'', GapText 4 2, HexText ''FF'']) no_modifiers]
       (Matched ''h'') [] []"


section \<open>Properties of the command-line scanner\<close>

text \<open>
  Claim C10. \<^verbatim>\<open>validate_paths\<close> raises \<^verbatim>\<open>FileNotFoundError\<close> if and only if the
  rule path is not an existing file or the file to scan is not an existing file; it raises
  nothing else; and, raising or not, it leaves the fields \<^verbatim>\<open>rule_path\<close>,
  \<^verbatim>\<open>file_to_scan\<close> and \<^verbatim>\<open>compiled_rule\<close> of the scanner as they were.
\<close>

theorem validate_paths_raises_iff:
  "((\<exists>m. fst (validate_paths w (self, l)) = Inl (FileNotFoundError m)) \<longleftrightarrow>
      (\<not> os_isfile w (rule_path self) \<or> \<not> os_isfile w (file_to_scan self)))
   \<and> (isl (fst (validate_paths w (self, l))) \<longleftrightarrow>
      (\<exists>m. fst (validate_paths w (self, l)) = Inl (FileNotFoundError m)))
   \<and> fst (snd (validate_paths w (self, l))) = self"
  by (simp add: validate_paths_def)

theorem validate_paths_raises_iff_witness:
  "\<not> os_isfile example_world ''missing.yar''
   \<and> (\<exists>m. fst (validate_paths example_world
                 (YaraScanner_init ''missing.yar'' ''sample.bin'', [])) = Inl (FileNotFoundError m))
   \<and> fst (snd (validate_paths example_world
                 (YaraScanner_init ''missing.yar'' ''sample.bin'', [])))
       = YaraScanner_init ''missing.yar'' ''sample.bin''
   \<and> fst (validate_paths example_world
            (YaraScanner_init ''yara_rules/test.yar'' ''sample.bin'', [])) = Inr ()"
  using validate_paths_raises_iff [of example_world "YaraScanner_init ''missing.yar'' ''sample.bin''" "[]"]
    validate_paths_raises_iff [of example_world "YaraScanner_init ''yara_rules/test.yar'' ''sample.bin''" "[]"]
  by (simp add: example_world_def YaraScanner_init_def validate_paths_def)

text \<open>
  Claim C9. \<^verbatim>\<open>get_rule_path\<close> appends \<^verbatim>\<open>.yar\<close> to the rule name exactly when the
  name ends with neither \<^verbatim>\<open>.yar\<close> nor \<^verbatim>\<open>.yara\<close>; the name so extended is
  returned unchanged when it is an absolute path, and joined onto the rule base that
  \<^verbatim>\<open>Config\<close> detects otherwise.
\<close>

theorem get_rule_path_extension_then_join:
  "get_rule_path w r =
     (let r' = (if suffix ''.yar'' r \<or> suffix ''.yara'' r then r else r @ ''.yar'')
      in if os_isabs w r' then r' else os_join w (rule_base (Config_init w)) r')"
  by (simp add: get_rule_path_def Let_def)

theorem get_rule_path_extension_then_join_witness:
  "get_rule_path example_world ''test'' = ''yara_rules/test.yar''
   \<and> get_rule_path example_world ''test.yara'' = ''yara_rules/test.yara''
   \<and> get_rule_path example_world ''/opt/rules/a.yar'' = ''/opt/rules/a.yar''
   \<and> get_rule_path example_world ''/opt/rules/a'' = ''/opt/rules/a.yar''"
  using get_rule_path_extension_then_join [of example_world "''test''"]
    get_rule_path_extension_then_join [of example_world "''test.yara''"]
    get_rule_path_extension_then_join [of example_world "''/opt/rules/a.yar''"]
    get_rule_path_extension_then_join [of example_world "''/opt/rules/a''"]
  by (simp add: example_world_def example_join_def Config_init_def get_rule_base_def
      Config_rule_base_default_def suffix_to_prefix)

text \<open>
  Claim C8. When \<^verbatim>\<open>compile_rule\<close> raises \<^verbatim>\<open>yara.SyntaxError\<close> during
  \<^verbatim>\<open>run\<close> (the paths having been validated), the handler of \<^verbatim>\<open>run\<close> reads the
  unbound local \<^verbatim>\<open>e\<close>: \<^verbatim>\<open>run\<close> raises \<^verbatim>\<open>UnboundLocalError\<close>, a
  \<^verbatim>\<open>NameError\<close>, and adds nothing to the log that \<^verbatim>\<open>compile_rule\<close> left.
\<close>

theorem run_syntax_error_raises_NameError:
  assumes "validate_paths w
             (YaraScanner_init (get_rule_path w (arg_rule args)) (arg_file args), l) = (Inr (), \<sigma>1)"
    and "compile_rule w \<sigma>1 = (Inl exc, \<sigma>2)"
    and "is_YaraSyntaxError exc"
  shows "run w args l = (Inl (UnboundLocalError ''e''), snd \<sigma>2)
         \<and> is_NameError (UnboundLocalError ''e'')"
proof -
  obtain self2 l2 where s2: "\<sigma>2 = (self2, l2)"
    by (cases \<sigma>2)
  have nf: "\<not> is_FileNotFoundError exc"
    using assms(3) by (cases exc) simp_all
  have "run_try w (get_rule_path w (arg_rule args)) (arg_file args) l = (Inl exc, self2, l2)"
    using assms(1,2) s2 by (simp add: run_try_def)
  then show ?thesis
    using nf assms(3) s2 by (simp add: run_def read_local_def)
qed

theorem run_syntax_error_raises_NameError_witness:
  "run example_world \<lparr>arg_rule = ''test'', arg_file = ''sample.bin''\<rparr> []
     = (Inl (UnboundLocalError ''e''),
        [(INFO, ''Compiling YARA rule from: yara_rules/test''),
         (ERROR, ''Syntax Error in YARA rule: line 1: syntax error'')])"
proof -
  let ?w = example_world
  let ?args = "\<lparr>arg_rule = ''test'', arg_file = ''sample.bin''\<rparr>"
  have p: "get_rule_path ?w ''test'' = ''yara_rules/test.yar''"
    by (simp add: get_rule_path_def example_world_def example_join_def Config_init_def
        get_rule_base_def Config_rule_base_default_def suffix_to_prefix)
  have v: "validate_paths ?w (YaraScanner_init (get_rule_path ?w (arg_rule ?args)) (arg_file ?args), [])
             = (Inr (), (YaraScanner_init ''yara_rules/test.yar'' ''sample.bin'', []))"
    by (simp add: p validate_paths_def YaraScanner_init_def) (simp add: example_world_def)
  have d: "replace_yar (split_backslash_last ''yara_rules/test.yar'') = ''yara_rules/test''"
    by code_simp
  have c: "compile_rule ?w (YaraScanner_init ''yara_rules/test.yar'' ''sample.bin'', [])
             = (Inl (YaraSyntaxError ''line 1: syntax error''),
                (YaraScanner_init ''yara_rules/test.yar'' ''sample.bin'',
                 [(INFO, ''Compiling YARA rule from: yara_rules/test''),
                  (ERROR, ''Syntax Error in YARA rule: line 1: syntax error'')]))"
    by (simp add: compile_rule_def YaraScanner_init_def d log_info_def log_error_def
        example_world_def)
  show ?thesis
    using run_syntax_error_raises_NameError [OF v c] by simp
qed

section \<open>Properties of the matching engine\<close>

subsection \<open>Compilation\<close>

lemma compile_hex_token_error: "compile_hex_token t = Inl e \<Longrightarrow> e = PatternSyntaxError"
  by (cases t) (auto split: if_splits list.splits)

lemma compile_hex_token_fails_iff:
  "compile_hex_token t = Inl PatternSyntaxError \<longleftrightarrow> malformed_hex_token t \<or> inverted_gap t"
  by (cases t) (auto split: list.splits)

lemma compile_hex_error: "compile_hex ts = Inl e \<Longrightarrow> e = PatternSyntaxError"
  by (induction ts arbitrary: e) (auto split: sum.splits dest: compile_hex_token_error)

lemma compile_hex_fails_iff:
  "compile_hex ts = Inl PatternSyntaxError \<longleftrightarrow>
     (\<exists>t \<in> set ts. malformed_hex_token t \<or> inverted_gap t)"
proof (induction ts)
  case Nil
  show ?case by simp
next
  case (Cons t ts)
  show ?case
  proof (cases "compile_hex_token t")
    case (Inl e)
    then have "compile_hex_token t = Inl PatternSyntaxError"
      using compile_hex_token_error by blast
    then show ?thesis
      using compile_hex_token_fails_iff [of t] by simp
  next
    case (Inr c)
    then have "\<not> (malformed_hex_token t \<or> inverted_gap t)"
      using compile_hex_token_fails_iff [of t] by simp
    moreover have "compile_hex (t # ts) = Inl PatternSyntaxError \<longleftrightarrow>
        compile_hex ts = Inl PatternSyntaxError"
      using Inr by (simp split: sum.splits)
    ultimately show ?thesis
      using Cons.IH by auto
  qed
qed

lemma compile_pattern_error: "compile_pattern pd = Inl e \<Longrightarrow> e = PatternSyntaxError"
  by (cases "pd_source pd")
     (auto simp: compile_pattern_def split: sum.splits dest: compile_hex_error)

lemma compile_patterns_member_fails:
  "pd \<in> set pds \<Longrightarrow> compile_pattern pd = Inl e \<Longrightarrow>
     compile_patterns pds = Inl PatternSyntaxError"
proof (induction pds)
  case Nil
  then show ?case by simp
next
  case (Cons a pds)
  show ?case
  proof (cases "compile_pattern a")
    case (Inl e')
    then show ?thesis
      using compile_pattern_error [OF Inl] by simp
  next
    case (Inr p)
    with Cons.prems have "pd \<in> set pds"
      by auto
    then have "compile_patterns pds = Inl PatternSyntaxError"
      using Cons.IH Cons.prems(2) by simp
    then show ?thesis
      using Inr by simp
  qed
qed


lemma compileRules_append_fails:
  "compileRules srcs1 = Inr rs1 \<Longrightarrow> compile_rule_source src = Inl e \<Longrightarrow>
     compileRules (srcs1 @ src # srcs2) = Inl e"
  by (induction srcs1 arbitrary: rs1) (auto split: sum.splits)





subsection \<open>Evaluation of conditions\<close>



lemma term_offset_undefined:
  "x \<in> set (term_offsets_evaluated ctx t) \<Longrightarrow> ctx x = [] \<Longrightarrow>
     eval_term ctx t = Inl (UndefinedOffsetError x)"
  by (induction t) (auto split: sum.splits)

lemma offset_undefined:
  "x \<in> set (offsets_evaluated ctx c) \<Longrightarrow> ctx x = [] \<Longrightarrow>
     eval_condition ctx c = Inl (UndefinedOffsetError x)"
proof (induction c)
  case (Cmp opr a b)
  then show ?case
    by (auto split: sum.splits dest: term_offset_undefined)
qed (auto split: sum.splits if_splits)

subsection \<open>Assembling a result\<close>

lemma assemble_append:
  "assemble (xs @ ys) =
     ScanResult (sr_matched (assemble xs) @ sr_matched (assemble ys))
                (sr_errors (assemble xs) @ sr_errors (assemble ys))"
  by (induction xs rule: assemble.induct) (auto split: rule_outcome.splits)

lemma assemble_matched_set:
  "MatchedRule r occs \<in> set (sr_matched (assemble xs)) \<longleftrightarrow> (r, RuleMatched occs) \<in> set xs"
  by (induction xs rule: assemble.induct) (auto split: rule_outcome.splits)


lemma scan_append:
  "scan (rs1 @ rs2) buf =
     ScanResult (sr_matched (scan rs1 buf) @ sr_matched (scan rs2 buf))
                (sr_errors (scan rs1 buf) @ sr_errors (scan rs2 buf))"
  by (simp add: scan_def assemble_append)




subsection \<open>Occurrences\<close>






subsection \<open>Schedules\<close>





subsection \<open>The claims about the engine\<close>




text \<open>
  Claim C2. A rule of the rule set whose condition is the literal true is in the result of
  the scan, with the occurrences of its patterns, whatever the buffer holds.
\<close>

theorem literal_true_rule_always_matches:
  assumes "r \<in> set ruleSet" and "rule_condition r = BoolLit True"
  shows "MatchedRule r (rule_occurrences r buf) \<in> set (sr_matched (scan ruleSet buf))"
proof -
  have "evaluate_rule r buf = RuleMatched (rule_occurrences r buf)"
    using assms(2) by (simp add: evaluate_rule_def)
  then have "(r, RuleMatched (rule_occurrences r buf))
               \<in> set (map (\<lambda>r. (r, evaluate_rule r buf)) ruleSet)"
    using assms(1) by force
  then show ?thesis
    by (simp add: scan_def assemble_matched_set)
qed

theorem literal_true_rule_always_matches_witness:
  "always_rule \<in> set [first_byte_rule, always_rule]
   \<and> rule_condition always_rule = BoolLit True
   \<and> MatchedRule always_rule [] \<in> set (sr_matched (scan [first_byte_rule, always_rule] ''xyz''))"
proof -
  have a: "always_rule \<in> set [first_byte_rule, always_rule]"
    by simp
  have b: "rule_condition always_rule = BoolLit True"
    by (simp add: always_rule_def)
  have c: "rule_occurrences always_rule ''xyz'' = []"
    by (simp add: rule_occurrences_def keyed_occurrences_def always_rule_def)
  show ?thesis
    using a b literal_true_rule_always_matches [OF a b, of "''xyz''"] by (simp add: c)
qed



text \<open>
  Claim C4. A hex pattern source with a malformed hex token, or with a gap whose lower bound
  exceeds its upper bound, does not compile: the pattern fails with \<open>PatternSyntaxError\<close>,
  and so does the compilation of a rule that contains it, and of a rule set in which the rules
  before that rule compile.
\<close>

theorem malformed_hex_pattern_fails_to_compile:
  assumes "\<exists>t \<in> set ts. malformed_hex_token t \<or> inverted_gap t"
  shows "compile_pattern (PatternDef x (HexSource ts) mods) = Inl PatternSyntaxError
     \<and> (PatternDef x (HexSource ts) mods \<in> set (rs_patterns src) \<longrightarrow>
          compile_rule_source src = Inl PatternSyntaxError
          \<and> compileRules [src] = Inl PatternSyntaxError
          \<and> (\<forall>srcs1 rs1 srcs2. compileRules srcs1 = Inr rs1 \<longrightarrow>
               compileRules (srcs1 @ src # srcs2) = Inl PatternSyntaxError))"
proof -
  have h: "compile_hex ts = Inl PatternSyntaxError"
    using assms compile_hex_fails_iff by blast
  then have p: "compile_pattern (PatternDef x (HexSource ts) mods) = Inl PatternSyntaxError"
    by (simp add: compile_pattern_def)
  have r: "compile_rule_source src = Inl PatternSyntaxError"
    if "PatternDef x (HexSource ts) mods \<in> set (rs_patterns src)"
    using compile_patterns_member_fails [OF that p] by (simp add: compile_rule_source_def)
  have s: "compileRules (srcs1 @ src # srcs2) = Inl PatternSyntaxError"
    if "PatternDef x (HexSource ts) mods \<in> set (rs_patterns src)"
      and "compileRules srcs1 = Inr rs1" for srcs1 rs1 srcs2
    using compileRules_append_fails [OF that(2) r [OF that(1)]] .
  have o: "compileRules [src] = Inl PatternSyntaxError"
    if "PatternDef x (HexSource ts) mods \<in> set (rs_patterns src)"
    using r [OF that] by simp
  show ?thesis
    using p r s o by blast
qed

theorem malformed_hex_pattern_fails_to_compile_witness:
  "(\<exists>t \<in> set [HexText ''6A'', GapText 4 2, HexText ''FF'']. malformed_hex_token t \<or> inverted_gap t)
   \<and> compileRules [inverted_gap_source] = Inl PatternSyntaxError
   \<and> (\<exists>t \<in> set [HexText ''6G'']. malformed_hex_token t \<or> inverted_gap t)
   \<and> compile_pattern (PatternDef ''g'' (HexSource [HexText ''6G'']) no_modifiers)
       = Inl PatternSyntaxError"
proof -
  have a: "\<exists>t \<in> set [HexText ''6A'', GapText 4 2, HexText ''FF''].
             malformed_hex_token t \<or> inverted_gap t"
    by simp
  have b: "\<exists>t \<in> set [HexText ''6G'']. malformed_hex_token t \<or> inverted_gap t"
    by (simp add: is_hex_digit_def)
  have m: "PatternDef ''h'' (HexSource [HexText ''6A'', GapText 4 2, HexText ''FF'']) no_modifiers
             \<in> set (rs_patterns inverted_gap_source)"
    by (simp add: inverted_gap_source_def)
  show ?thesis
    using a b m
      malformed_hex_pattern_fails_to_compile [OF a,
        where x = "''h''" and mods = no_modifiers and src = inverted_gap_source]
      malformed_hex_pattern_fails_to_compile [OF b,
        where x = "''g''" and mods = no_modifiers and src = inverted_gap_source]
    by blast
qed



text \<open>
  Claim C6. When the evaluation of a rule's condition reaches \<^verbatim>\<open>@x\<close> and \<open>x\<close> has no
  occurrence, the rule fails with \<open>UndefinedOffsetError\<close> and is not matched; the scan goes
  on: the matched rules are those of the scan of the other rules, and the error is recorded
  under the rule's identifier between the errors of the rules before it and after it.
\<close>

theorem undefined_offset_is_scoped_to_its_rule:
  assumes "x \<in> set (offsets_evaluated (context_of (rule_occurrences r buf)) (rule_condition r))"
    and "context_of (rule_occurrences r buf) x = []"
  shows "evaluate_rule r buf = RuleFailed (UndefinedOffsetError x)
     \<and> sr_matched (scan (rs1 @ r # rs2) buf) = sr_matched (scan (rs1 @ rs2) buf)
     \<and> sr_matched (scan (rs1 @ r # rs2) buf)
         = sr_matched (scan rs1 buf) @ sr_matched (scan rs2 buf)
     \<and> sr_errors (scan (rs1 @ r # rs2) buf)
         = sr_errors (scan rs1 buf) @ (rule_identifier r, UndefinedOffsetError x)
             # sr_errors (scan rs2 buf)"
proof -
  have e: "evaluate_rule r buf = RuleFailed (UndefinedOffsetError x)"
    using offset_undefined [OF assms] by (simp add: evaluate_rule_def)
  have c: "scan (r # rs2) buf =
             ScanResult (sr_matched (scan rs2 buf))
               ((rule_identifier r, UndefinedOffsetError x) # sr_errors (scan rs2 buf))"
    using e by (simp add: scan_def)
  show ?thesis
    using e by (simp add: scan_append c)
qed

theorem undefined_offset_is_scoped_to_its_rule_witness:
  "''a'' \<in> set (offsets_evaluated (context_of (rule_occurrences first_byte_rule ''xxcdxx''))
                  (rule_condition first_byte_rule))
   \<and> context_of (rule_occurrences first_byte_rule ''xxcdxx'') ''a'' = []
   \<and> scan [always_rule, first_byte_rule, cd_rule] ''xxcdxx''
       = ScanResult [MatchedRule always_rule [], MatchedRule cd_rule [MatchOccurrence ''B'' 2 2]]
                    [(''first_byte'', UndefinedOffsetError ''a'')]"
proof -
  have a: "''a'' \<in> set (offsets_evaluated (context_of (rule_occurrences first_byte_rule ''xxcdxx''))
                          (rule_condition first_byte_rule))"
    by (simp add: first_byte_rule_def)
  have b: "context_of (rule_occurrences first_byte_rule ''xxcdxx'') ''a'' = []"
    by code_simp
  have c: "scan [always_rule] ''xxcdxx'' = ScanResult [MatchedRule always_rule []] []"
    by code_simp
  have d: "scan [cd_rule] ''xxcdxx'' = ScanResult [MatchedRule cd_rule [MatchOccurrence ''B'' 2 2]] []"
    by code_simp
  have i: "rule_identifier first_byte_rule = ''first_byte''"
    by (simp add: first_byte_rule_def)
  have f: "scan [always_rule, cd_rule] ''xxcdxx''
             = ScanResult [MatchedRule always_rule [], MatchedRule cd_rule [MatchOccurrence ''B'' 2 2]] []"
    by code_simp
  from undefined_offset_is_scoped_to_its_rule [OF a b, of "[always_rule]" "[cd_rule]"]
  have "sr_matched (scan [always_rule, first_byte_rule, cd_rule] ''xxcdxx'')
          = [MatchedRule always_rule [], MatchedRule cd_rule [MatchOccurrence ''B'' 2 2]]"
    and "sr_errors (scan [always_rule, first_byte_rule, cd_rule] ''xxcdxx'')
          = [(''first_byte'', UndefinedOffsetError ''a'')]"
    by (simp_all add: c d i f)
  then have "scan [always_rule, first_byte_rule, cd_rule] ''xxcdxx''
       = ScanResult [MatchedRule always_rule [], MatchedRule cd_rule [MatchOccurrence ''B'' 2 2]]
                    [(''first_byte'', UndefinedOffsetError ''a'')]"
    by (cases "scan [always_rule, first_byte_rule, cd_rule] ''xxcdxx''") simp
  then show ?thesis
    using a b by simp
qed



end
